theory Spec2Isabelle
  imports Main
begin

section \<open>The resource fetch client of \<^verbatim>\<open>utils/api.js\<close>\<close>

text \<open>
  The module under verification:
  \<^verbatim>\<open>
  const API_URL = "https://your-django-api.com/api/";

  export async function fetchBooks() {
    const res = await fetch(`${API_URL}books/`);
    return res.json();
  }
  \<close>
  The module calls two operations of the JavaScript platform, the global \<open>fetch\<close> and
  the method \<open>json\<close> of the response object. Neither is code of the module, so both
  are parameters of the model (a \<open>platform\<close>), and every theorem holds for every
  platform.
\<close>

subsection \<open>Data\<close>

text \<open>
  A promise is pending, rejected with an error or resolved with a value. A promise that
  is never settled stays \<open>Pending\<close>: this is how a request that is never answered
  shows.
\<close>

datatype ('e, 'a) promise = Pending | Rejected 'e | Resolved 'a

datatype http_method = GET | HEAD | POST | PUT | DELETE

record request =
  req_method :: http_method
  req_url :: string

record response =
  status :: nat
  body :: string

text \<open>
  The world outside the module: the log of the requests sent so far, oldest first.
  The record is extensible, so that \<open>world.more\<close> stands for every other piece of
  state the program may hold.
\<close>

record world =
  requests :: "request list"

text \<open>
  The platform. \<open>transport\<close> is the network: given the requests sent earlier and the
  request sent now, the promise of a response (rejected when the request cannot be
  completed, pending when no answer ever arrives). \<open>parse_json\<close> is the platform's JSON
  parser on the text of a body: \<open>Inl\<close> the error it throws, \<open>Inr\<close> the parsed value.
\<close>

record ('e, 'j) platform =
  transport :: "request list \<Rightarrow> request \<Rightarrow> ('e, response) promise"
  parse_json :: "string \<Rightarrow> 'e + 'j"

subsection \<open>The platform operations the module calls\<close>

text \<open>
  \<open>fetch(url)\<close> with a single string argument sends one GET request to \<open>url\<close> and
  returns the promise of its response. The status of the response plays no part in
  whether the promise is resolved.
\<close>

definition fetch ::
  "('e, 'j) platform \<Rightarrow> string \<Rightarrow> 'z world_scheme \<Rightarrow> ('e, response) promise \<times> 'z world_scheme" where
  "fetch pf u w =
     (let rq = \<lparr>req_method = GET, req_url = u\<rparr>
      in (transport pf (requests w) rq, w\<lparr>requests := requests w @ [rq]\<rparr>))"

text \<open>\<open>res.json()\<close> parses the text of the body of \<open>res\<close>, and reads nothing else of it.\<close>

definition json :: "('e, 'j) platform \<Rightarrow> response \<Rightarrow> ('e, 'j) promise" where
  "json pf res = (case parse_json pf (body res) of Inl e \<Rightarrow> Rejected e | Inr v \<Rightarrow> Resolved v)"

subsection \<open>The module\<close>

definition API_URL :: string where
  "API_URL = ''https://your-django-api.com/api/''"

text \<open>
  \<open>fetchBooks\<close> declares no parameter; JavaScript accepts a call with any arguments and
  drops them, so the model takes the list of the arguments of the call. An \<open>await\<close> on
  a pending promise leaves the promise of the function pending, on a rejected one it
  throws, and with no handler in the function its promise is rejected with the same
  error. The promise returned by \<open>res.json()\<close> becomes the outcome of the function.
\<close>

definition fetchBooks ::
  "('e, 'j) platform \<Rightarrow> 'a list \<Rightarrow> 'z world_scheme \<Rightarrow> ('e, 'j) promise \<times> 'z world_scheme" where
  "fetchBooks pf args w =
     (case fetch pf (API_URL @ ''books/'') w of
        (Pending, w') \<Rightarrow> (Pending, w')
      | (Rejected e, w') \<Rightarrow> (Rejected e, w')
      | (Resolved res, w') \<Rightarrow> (json pf res, w'))"

subsection \<open>A test double of the platform\<close>

datatype json_value =
  JNull | JBool bool | JNum int | JStr string
  | JArr "json_value list" | JObj "(string \<times> json_value) list"

datatype js_error = TypeError | SyntaxError

text \<open>A parser that knows two documents and throws on every other text.\<close>

definition stub_parse :: \<open>string \<Rightarrow> js_error + json_value\<close> where
  \<open>stub_parse b =
     (if b = ''[{"id":1,"title":"A"}]''
        then Inr (JArr [JObj [(''id'', JNum 1), (''title'', JStr ''A'')]])
      else if b = ''{"detail":"server error"}''
        then Inr (JObj [(''detail'', JStr ''server error'')])
      else Inl SyntaxError)\<close>

text \<open>
  A server that gives the answer \<open>ans\<close> to a GET request for the books and is
  unreachable for every other request.
\<close>

definition stub_platform :: "(js_error, response) promise \<Rightarrow> (js_error, json_value) platform" where
  "stub_platform ans =
     \<lparr>transport = (\<lambda>h rq. if rq = \<lparr>req_method = GET, req_url = API_URL @ ''books/''\<rparr>
                             then ans else Rejected TypeError),
      parse_json = stub_parse\<rparr>"

section \<open>Properties\<close>

lemma requests_fetchBooks:
  "requests (snd (fetchBooks pf args w)) =
     requests w @ [\<lparr>req_method = GET, req_url = API_URL @ ''books/''\<rparr>]"
  by (simp add: fetchBooks_def fetch_def Let_def split: promise.split)

lemma outcome_fetchBooks:
  "fst (fetchBooks pf args w) =
     (case transport pf (requests w) \<lparr>req_method = GET, req_url = API_URL @ ''books/''\<rparr> of
        Pending \<Rightarrow> Pending
      | Rejected e \<Rightarrow> Rejected e
      | Resolved res \<Rightarrow> json pf res)"
  by (simp add: fetchBooks_def fetch_def Let_def split: promise.split)

subsection \<open>The request that a call sends\<close>

text \<open>
  C1, as stated, fails. The claim speaks of a resource path \<open>p\<close> chosen by the caller
  and of a request to the endpoint followed by \<open>p\<close>. The function has no path
  parameter: a call made with the path \<open>authors/\<close> sends its request to the books all
  the same.
\<close>

theorem fetchBooks_path_counterexample:
  "requests (snd (fetchBooks (stub_platform Pending) [''authors/''] \<lparr>requests = []\<rparr>))
     = [\<lparr>req_method = GET, req_url = ''https://your-django-api.com/api/books/''\<rparr>]
   \<and> ''https://your-django-api.com/api/books/'' \<noteq> API_URL @ ''authors/''"
  by (simp add: requests_fetchBooks API_URL_def)

text \<open>
  C1, amended. Whatever the arguments, the platform and the earlier requests, one
  call appends exactly one request to the log, a GET request, whose URL is the endpoint
  followed by the fixed path \<open>books/\<close>. No second request and no retry follows, also
  when the first one fails.
\<close>

theorem fetchBooks_one_get_request:
  "requests (snd (fetchBooks pf args w)) =
     requests w @ [\<lparr>req_method = GET, req_url = API_URL @ ''books/''\<rparr>]"
  by (rule requests_fetchBooks)

subsection \<open>Outcomes\<close>

text \<open>
  C2. When the response arrives and its body parses as JSON, the promise of
  \<open>fetchBooks\<close> is resolved with exactly the value the parser produced: nothing is
  transformed, validated or filtered on the way.
\<close>

theorem fetchBooks_resolves_parsed_body:
  assumes "transport pf (requests w) \<lparr>req_method = GET, req_url = API_URL @ ''books/''\<rparr>
             = Resolved res"
    and "parse_json pf (body res) = Inr v"
  shows "fst (fetchBooks pf args w) = Resolved v"
  using assms by (simp add: outcome_fetchBooks json_def)

text \<open>The instance of the specification: a status 200 response carrying a JSON array.\<close>

theorem fetchBooks_resolves_parsed_body_witness:
  \<open>transport (stub_platform (Resolved \<lparr>status = 200, body = ''[{"id":1,"title":"A"}]''\<rparr>))
       (requests \<lparr>requests = []\<rparr>) \<lparr>req_method = GET, req_url = API_URL @ ''books/''\<rparr>
     = Resolved \<lparr>status = 200, body = ''[{"id":1,"title":"A"}]''\<rparr>
   \<and> parse_json (stub_platform (Resolved \<lparr>status = 200, body = ''[{"id":1,"title":"A"}]''\<rparr>))
       (body \<lparr>status = 200, body = ''[{"id":1,"title":"A"}]''\<rparr>)
     = Inr (JArr [JObj [(''id'', JNum 1), (''title'', JStr ''A'')]])
   \<and> fst (fetchBooks (stub_platform (Resolved \<lparr>status = 200, body = ''[{"id":1,"title":"A"}]''\<rparr>))
          ([] :: string list) \<lparr>requests = []\<rparr>)
     = Resolved (JArr [JObj [(''id'', JNum 1), (''title'', JStr ''A'')]])\<close>
proof -
  let ?res = \<open>\<lparr>status = 200, body = ''[{"id":1,"title":"A"}]''\<rparr>\<close>
  have t: "transport (stub_platform (Resolved ?res)) (requests \<lparr>requests = []\<rparr>)
             \<lparr>req_method = GET, req_url = API_URL @ ''books/''\<rparr> = Resolved ?res"
    by (simp add: stub_platform_def)
  have p: "parse_json (stub_platform (Resolved ?res)) (body ?res)
             = Inr (JArr [JObj [(''id'', JNum 1), (''title'', JStr ''A'')]])"
    by (simp add: stub_platform_def stub_parse_def)
  from fetchBooks_resolves_parsed_body [OF t p] t p show ?thesis
    by simp
qed

text \<open>
  C3. The status of the response plays no part in the outcome: for a response with any
  status \<open>s\<close> and body \<open>b\<close>, the outcome is the result of parsing \<open>b\<close>, resolved
  when \<open>b\<close> parses and rejected when it does not.
\<close>

theorem fetchBooks_ignores_status:
  assumes "transport pf (requests w) \<lparr>req_method = GET, req_url = API_URL @ ''books/''\<rparr>
             = Resolved \<lparr>status = s, body = b\<rparr>"
  shows "fst (fetchBooks pf args w) =
           (case parse_json pf b of Inl e \<Rightarrow> Rejected e | Inr v \<Rightarrow> Resolved v)"
  using assms by (simp add: outcome_fetchBooks json_def)

text \<open>A status 500 response with a JSON body resolves with that body.\<close>

theorem fetchBooks_ignores_status_witness:
  \<open>transport (stub_platform (Resolved \<lparr>status = 500, body = ''{"detail":"server error"}''\<rparr>))
       (requests \<lparr>requests = []\<rparr>) \<lparr>req_method = GET, req_url = API_URL @ ''books/''\<rparr>
     = Resolved \<lparr>status = 500, body = ''{"detail":"server error"}''\<rparr>
   \<and> fst (fetchBooks (stub_platform (Resolved \<lparr>status = 500, body = ''{"detail":"server error"}''\<rparr>))
          ([] :: string list) \<lparr>requests = []\<rparr>)
     = Resolved (JObj [(''detail'', JStr ''server error'')])\<close>
proof -
  let ?res = \<open>\<lparr>status = 500, body = ''{"detail":"server error"}''\<rparr>\<close>
  have t: "transport (stub_platform (Resolved ?res)) (requests \<lparr>requests = []\<rparr>)
             \<lparr>req_method = GET, req_url = API_URL @ ''books/''\<rparr> = Resolved ?res"
    by (simp add: stub_platform_def)
  from fetchBooks_ignores_status [OF t] t show ?thesis
    by (simp add: stub_platform_def stub_parse_def)
qed

text \<open>
  C4. When the response arrives and its body does not parse as JSON, the promise is
  rejected: it is neither resolved with any value (a default, a partial value, null)
  nor left pending.
\<close>

theorem fetchBooks_rejects_unparsable_body:
  assumes "transport pf (requests w) \<lparr>req_method = GET, req_url = API_URL @ ''books/''\<rparr>
             = Resolved res"
    and "parse_json pf (body res) = Inl e"
  shows "(\<exists>x. fst (fetchBooks pf args w) = Rejected x)
         \<and> (\<forall>v. fst (fetchBooks pf args w) \<noteq> Resolved v)
         \<and> fst (fetchBooks pf args w) \<noteq> Pending"
  using assms by (simp add: outcome_fetchBooks json_def)

text \<open>The instance of the specification: a status 200 response with the plain text \<open>error\<close>.\<close>

theorem fetchBooks_rejects_unparsable_body_witness:
  "transport (stub_platform (Resolved \<lparr>status = 200, body = ''error''\<rparr>))
       (requests \<lparr>requests = []\<rparr>) \<lparr>req_method = GET, req_url = API_URL @ ''books/''\<rparr>
     = Resolved \<lparr>status = 200, body = ''error''\<rparr>
   \<and> parse_json (stub_platform (Resolved \<lparr>status = 200, body = ''error''\<rparr>))
       (body \<lparr>status = 200, body = ''error''\<rparr>) = Inl SyntaxError
   \<and> fst (fetchBooks (stub_platform (Resolved \<lparr>status = 200, body = ''error''\<rparr>))
          ([] :: string list) \<lparr>requests = []\<rparr>) = Rejected SyntaxError"
proof -
  let ?res = "\<lparr>status = 200, body = ''error''\<rparr>"
  have t: "transport (stub_platform (Resolved ?res)) (requests \<lparr>requests = []\<rparr>)
             \<lparr>req_method = GET, req_url = API_URL @ ''books/''\<rparr> = Resolved ?res"
    by (simp add: stub_platform_def)
  have p: "parse_json (stub_platform (Resolved ?res)) (body ?res) = Inl SyntaxError"
    by (simp add: stub_platform_def stub_parse_def)
  from fetchBooks_rejects_unparsable_body [OF t p, of "[] :: string list"] t p
  show ?thesis
    by (simp add: outcome_fetchBooks json_def)
qed

text \<open>
  C5. When the transport fails, the promise is rejected with the error of the
  transport: it is neither resolved with any value nor left pending. A transport
  failure and a parse failure, whatever errors \<open>e\<close> and \<open>e'\<close> they raise, surface
  in one and the same form, \<open>Rejected\<close> applied to the error raised: the outcome has
  no other form of failure and carries no mark of the step that failed.
\<close>

theorem fetchBooks_rejects_transport_failure:
  "(transport pf (requests w) \<lparr>req_method = GET, req_url = API_URL @ ''books/''\<rparr>
      = Rejected e \<longrightarrow>
        fst (fetchBooks pf args w) = Rejected e
        \<and> (\<forall>v. fst (fetchBooks pf args w) \<noteq> Resolved v)
        \<and> fst (fetchBooks pf args w) \<noteq> Pending)
   \<and> (transport pf (requests w) \<lparr>req_method = GET, req_url = API_URL @ ''books/''\<rparr>
         = Rejected e
       \<and> transport pf' (requests w') \<lparr>req_method = GET, req_url = API_URL @ ''books/''\<rparr>
         = Resolved res
       \<and> parse_json pf' (body res) = Inl e' \<longrightarrow>
        fst (fetchBooks pf args w) = Rejected e
        \<and> fst (fetchBooks pf' args' w') = Rejected e')"
  by (simp add: outcome_fetchBooks json_def)

text \<open>
  An unreachable host, reported with a \<open>TypeError\<close>, on one side; a plain text body,
  on which the parser throws a \<open>SyntaxError\<close>, on the other.
\<close>

theorem fetchBooks_rejects_transport_failure_witness:
  "transport (stub_platform (Rejected TypeError)) (requests \<lparr>requests = []\<rparr>)
       \<lparr>req_method = GET, req_url = API_URL @ ''books/''\<rparr> = Rejected TypeError
   \<and> transport (stub_platform (Resolved \<lparr>status = 200, body = ''error''\<rparr>))
       (requests \<lparr>requests = []\<rparr>) \<lparr>req_method = GET, req_url = API_URL @ ''books/''\<rparr>
     = Resolved \<lparr>status = 200, body = ''error''\<rparr>
   \<and> parse_json (stub_platform (Resolved \<lparr>status = 200, body = ''error''\<rparr>))
       (body \<lparr>status = 200, body = ''error''\<rparr>) = Inl SyntaxError
   \<and> fst (fetchBooks (stub_platform (Rejected TypeError)) ([] :: string list)
          \<lparr>requests = []\<rparr>) = Rejected TypeError
   \<and> (\<forall>v. fst (fetchBooks (stub_platform (Rejected TypeError)) ([] :: string list)
          \<lparr>requests = []\<rparr>) \<noteq> Resolved v)
   \<and> fst (fetchBooks (stub_platform (Rejected TypeError)) ([] :: string list)
          \<lparr>requests = []\<rparr>) \<noteq> Pending
   \<and> fst (fetchBooks (stub_platform (Resolved \<lparr>status = 200, body = ''error''\<rparr>))
          ([] :: string list) \<lparr>requests = []\<rparr>) = Rejected SyntaxError"
proof -
  let ?res = "\<lparr>status = 200, body = ''error''\<rparr>"
  let ?rq = "\<lparr>req_method = GET, req_url = API_URL @ ''books/''\<rparr>"
  have t: "transport (stub_platform (Rejected TypeError)) (requests \<lparr>requests = []\<rparr>) ?rq
             = Rejected TypeError"
    by (simp add: stub_platform_def)
  have t': "transport (stub_platform (Resolved ?res)) (requests \<lparr>requests = []\<rparr>) ?rq
             = Resolved ?res"
    by (simp add: stub_platform_def)
  have p: "parse_json (stub_platform (Resolved ?res)) (body ?res) = Inl SyntaxError"
    by (simp add: stub_platform_def stub_parse_def)
  note c = fetchBooks_rejects_transport_failure
    [where pf = "stub_platform (Rejected TypeError)" and w = "\<lparr>requests = []\<rparr>"
       and e = TypeError and args = "[] :: string list"
       and pf' = "stub_platform (Resolved ?res)" and w' = "\<lparr>requests = []\<rparr>"
       and res = ?res and e' = SyntaxError and args' = "[] :: string list"]
  from c [THEN conjunct1, rule_format, OF t]
  have 1: "fst (fetchBooks (stub_platform (Rejected TypeError)) ([] :: string list)
             \<lparr>requests = []\<rparr>) = Rejected TypeError
           \<and> (\<forall>v. fst (fetchBooks (stub_platform (Rejected TypeError)) ([] :: string list)
                  \<lparr>requests = []\<rparr>) \<noteq> Resolved v)
           \<and> fst (fetchBooks (stub_platform (Rejected TypeError)) ([] :: string list)
                  \<lparr>requests = []\<rparr>) \<noteq> Pending" .
  from c [THEN conjunct2, rule_format, OF conjI [OF t conjI [OF t' p]]]
  have 2: "fst (fetchBooks (stub_platform (Resolved ?res)) ([] :: string list)
             \<lparr>requests = []\<rparr>) = Rejected SyntaxError"
    by (rule conjunct2)
  from t t' p 1 2 show ?thesis
    by (intro conjI) (rule t, rule t', rule p, blast, blast, blast, rule 2)
qed

text \<open>
  C10. The function has no error handler: an error raised by the transport step, or by
  the parsing step on a response that arrived, is the very value the promise of the
  caller is rejected with.
\<close>

theorem fetchBooks_propagates_error:
  assumes "transport pf (requests w) \<lparr>req_method = GET, req_url = API_URL @ ''books/''\<rparr>
             = Rejected e
           \<or> (\<exists>res. transport pf (requests w)
                       \<lparr>req_method = GET, req_url = API_URL @ ''books/''\<rparr> = Resolved res
                     \<and> parse_json pf (body res) = Inl e)"
  shows "fst (fetchBooks pf args w) = Rejected e"
  using assms by (auto simp add: outcome_fetchBooks json_def)

text \<open>Both steps, each with its own error.\<close>

theorem fetchBooks_propagates_error_witness:
  "transport (stub_platform (Rejected TypeError)) (requests \<lparr>requests = []\<rparr>)
       \<lparr>req_method = GET, req_url = API_URL @ ''books/''\<rparr> = Rejected TypeError
   \<and> fst (fetchBooks (stub_platform (Rejected TypeError)) ([] :: string list)
          \<lparr>requests = []\<rparr>) = Rejected TypeError
   \<and> transport (stub_platform (Resolved \<lparr>status = 200, body = ''error''\<rparr>))
       (requests \<lparr>requests = []\<rparr>) \<lparr>req_method = GET, req_url = API_URL @ ''books/''\<rparr>
     = Resolved \<lparr>status = 200, body = ''error''\<rparr>
   \<and> parse_json (stub_platform (Resolved \<lparr>status = 200, body = ''error''\<rparr>))
       (body \<lparr>status = 200, body = ''error''\<rparr>) = Inl SyntaxError
   \<and> fst (fetchBooks (stub_platform (Resolved \<lparr>status = 200, body = ''error''\<rparr>))
          ([] :: string list) \<lparr>requests = []\<rparr>) = Rejected SyntaxError"
proof -
  let ?res = "\<lparr>status = 200, body = ''error''\<rparr>"
  have t: "transport (stub_platform (Rejected TypeError)) (requests \<lparr>requests = []\<rparr>)
             \<lparr>req_method = GET, req_url = API_URL @ ''books/''\<rparr> = Rejected TypeError"
    by (simp add: stub_platform_def)
  have t': "transport (stub_platform (Resolved ?res)) (requests \<lparr>requests = []\<rparr>)
             \<lparr>req_method = GET, req_url = API_URL @ ''books/''\<rparr> = Resolved ?res"
    by (simp add: stub_platform_def)
  have p: "parse_json (stub_platform (Resolved ?res)) (body ?res) = Inl SyntaxError"
    by (simp add: stub_platform_def stub_parse_def)
  have 1: "fst (fetchBooks (stub_platform (Rejected TypeError)) ([] :: string list)
             \<lparr>requests = []\<rparr>) = Rejected TypeError"
    by (rule fetchBooks_propagates_error) (rule disjI1, rule t)
  have 2: "fst (fetchBooks (stub_platform (Resolved ?res)) ([] :: string list)
             \<lparr>requests = []\<rparr>) = Rejected SyntaxError"
    by (rule fetchBooks_propagates_error) (rule disjI2, rule exI [of _ ?res], rule conjI [OF t' p])
  from 1 2 t t' p show ?thesis
    by simp
qed

subsection \<open>Arguments\<close>

text \<open>
  C6, as stated, fails. The claim has the path supplied by the caller handed to the HTTP
  layer unmodified. A malformed path supplied by the caller never reaches the HTTP
  layer: the URL of the request is that of the books, and the path is no part of it.
\<close>

theorem fetchBooks_path_passthrough_counterexample:
  "''%zz bad path'' \<noteq> []
   \<and> map req_url (requests (snd (fetchBooks (stub_platform Pending) [''%zz bad path'']
                                   \<lparr>requests = []\<rparr>)))
       = [''https://your-django-api.com/api/books/'']
   \<and> ''https://your-django-api.com/api/books/'' \<noteq> API_URL @ ''%zz bad path''"
  by (simp add: requests_fetchBooks API_URL_def)

text \<open>
  C6, amended. The function takes no resource path. A call may supply a path \<open>p\<close>
  (empty or not, well formed or not) and further arguments; none is validated and none
  is used: the only URL handed to the HTTP layer is the endpoint followed by the fixed
  path \<open>books/\<close>, and the outcome is that of a call with no argument.
\<close>

theorem fetchBooks_no_validation:
  "map req_url (drop (length (requests w)) (requests (snd (fetchBooks pf (p # rest) w))))
     = [API_URL @ ''books/'']
   \<and> fst (fetchBooks pf (p # rest) w) = fst (fetchBooks pf [] w)"
  by (simp add: requests_fetchBooks outcome_fetchBooks)

text \<open>
  C9. The arguments of a call are ignored: two calls with any arguments, of any types,
  made on the same platform in the same world have the same outcome and leave the same
  world, and the request of each goes to the same constant URL, the endpoint followed by
  \<open>books/\<close>.
\<close>

theorem fetchBooks_ignores_arguments:
  "fetchBooks pf args1 w = fetchBooks pf args2 w
   \<and> req_url (last (requests (snd (fetchBooks pf args1 w))))
       = ''https://your-django-api.com/api/books/''
   \<and> req_url (last (requests (snd (fetchBooks pf args2 w))))
       = ''https://your-django-api.com/api/books/''"
  by (simp add: requests_fetchBooks) (simp add: fetchBooks_def API_URL_def)

subsection \<open>Statelessness\<close>

text \<open>
  C7. The endpoint is a constant, and a call leaves nothing behind. A call changes the
  world in one way only, the request it appends to the log: every other component is as
  it was. So in two calls in a row both requests go to the same URL, the second call
  sends a request of its own, and its outcome is what the platform makes of the answer
  to that second request; nothing of the first call's payload enters it.
\<close>

theorem fetchBooks_stateless:
  "snd (fetchBooks pf args1 w)
     = w\<lparr>requests := requests w @ [\<lparr>req_method = GET, req_url = API_URL @ ''books/''\<rparr>]\<rparr>
   \<and> world.more (snd (fetchBooks pf args2 (snd (fetchBooks pf args1 w)))) = world.more w
   \<and> requests (snd (fetchBooks pf args2 (snd (fetchBooks pf args1 w))))
       = requests w @ [\<lparr>req_method = GET, req_url = API_URL @ ''books/''\<rparr>,
                       \<lparr>req_method = GET, req_url = API_URL @ ''books/''\<rparr>]
   \<and> fst (fetchBooks pf args2 (snd (fetchBooks pf args1 w)))
       = (case transport pf
                 (requests w @ [\<lparr>req_method = GET, req_url = API_URL @ ''books/''\<rparr>])
                 \<lparr>req_method = GET, req_url = API_URL @ ''books/''\<rparr> of
            Pending \<Rightarrow> Pending
          | Rejected e \<Rightarrow> Rejected e
          | Resolved res \<Rightarrow> json pf res)"
proof -
  have w1: "snd (fetchBooks pf args1 w)
     = w\<lparr>requests := requests w @ [\<lparr>req_method = GET, req_url = API_URL @ ''books/''\<rparr>]\<rparr>"
    by (simp add: fetchBooks_def fetch_def Let_def split: promise.split)
  have w2: "snd (fetchBooks pf args2 (snd (fetchBooks pf args1 w)))
     = (snd (fetchBooks pf args1 w))\<lparr>requests := requests (snd (fetchBooks pf args1 w))
          @ [\<lparr>req_method = GET, req_url = API_URL @ ''books/''\<rparr>]\<rparr>"
    by (simp add: fetchBooks_def fetch_def Let_def split: promise.split)
  have m: "world.more (snd (fetchBooks pf args2 (snd (fetchBooks pf args1 w)))) = world.more w"
    by (simp add: w2) (simp add: w1)
  show ?thesis
    using w1 m by (simp add: requests_fetchBooks outcome_fetchBooks)
qed

end
